theory Spec2Isabelle
  imports
    Main
    "HOL-Library.Multiset"
    "HOL-Library.Product_Lexorder"
    "HOL-Library.List_Lexorder"
    "HOL-Library.Char_ord"
begin

section \<open>Data model\<close>

text \<open>
  A point in time as \<open>(year, month, day, second of the day)\<close>. The order is the
  lexicographic order of the components, which is the chronological order on
  well-formed dates. \<open>dt_datetime y m d\<close> is Python's \<open>dt.datetime(y, m, d)\<close>,
  midnight of that day.
\<close>

type_synonym datetime = "nat \<times> nat \<times> nat \<times> nat"

definition dt_datetime :: "nat \<Rightarrow> nat \<Rightarrow> nat \<Rightarrow> datetime" where
  "dt_datetime y m d = (y, m, d, 0)"

text \<open>
  Modelled from the spec: the declarations of the tables Sales, Invoices, Vehicles,
  Vehicle_models and Customers are not part of the source (the code reads them with
  \<open>SELECT *\<close>); the columns are those of the spec's data model. Every column but
  \<open>price\<close> may hold SQL NULL, which is \<open>None\<close>. The column \<open>price\<close> is taken as
  \<open>INTEGER NOT NULL\<close>: pandas reads it as int64, and it stays int64 through the inner
  merge. A price column of type REAL, or one with a NULL, would be float64 in pandas,
  with floating-point sums; that is outside this model.
\<close>

record sale =
  sale_id :: "nat option"
  invoice_id :: "nat option"
  customer_id :: "nat option"
  vehicle_id :: "nat option"
  sale_dt :: "datetime option"

record invoice =
  invoice_id :: "nat option"
  price :: int

record vehicle =
  vehicle_id :: "nat option"
  vehicle_model_id :: "nat option"
  vehicle_year :: "int option"

record vehicle_model =
  vehicle_model_id :: "nat option"
  brand_name :: "string option"
  model_name :: "string option"

record customer =
  customer_id :: "nat option"
  customer_name :: "string option"

text \<open>A table that does not exist in the database file is \<open>None\<close>.\<close>

record database =
  Sales :: "sale list option"
  Vehicles :: "vehicle list option"
  Invoices :: "invoice list option"
  Vehicle_models :: "vehicle_model list option"
  Customers :: "customer list option"

text \<open>
  The errors that leave a report operation as exceptions: \<open>AttributeError\<close> when
  \<open>self.con\<close> was never set (the database file did not exist at construction),
  \<open>DatabaseError\<close> when a queried table is missing, and \<open>LookupError\<close> when the first
  element of an empty series is taken.
\<close>

datatype error = AttributeError | DatabaseError | LookupError

text \<open>
  The state of a \<open>ReportGenerator\<close>: \<open>con\<close> is set by the constructor only when
  the file \<open>dbname\<close> exists. The logger is left out: it has no effect on results.
\<close>

record ReportGenerator =
  dbname :: string
  con :: "database option"

definition init :: "(string \<Rightarrow> database option) \<Rightarrow> string \<Rightarrow> ReportGenerator" where
  "init path_exists name = \<lparr>dbname = name, con = path_exists name\<rparr>"

definition and_then :: "error + 'a \<Rightarrow> ('a \<Rightarrow> error + 'b) \<Rightarrow> error + 'b" where
  "and_then m f = (case m of Inl e \<Rightarrow> Inl e | Inr x \<Rightarrow> f x)"

definition read_sql_query ::
  "(database \<Rightarrow> 'a list option) \<Rightarrow> ReportGenerator \<Rightarrow> error + 'a list" where
  "read_sql_query table self =
     (case con self of
        None \<Rightarrow> Inl AttributeError
      | Some db \<Rightarrow> (case table db of None \<Rightarrow> Inl DatabaseError | Some rows \<Rightarrow> Inr rows))"

section \<open>The pandas operations the reports use\<close>

text \<open>
  \<open>pd.merge(left, right, on=key)\<close>: the inner join. Every left row is paired with
  every right row of the same key, the rows of one key in the order of the left
  frame; a null key matches a null key, as in pandas. The reports group the merged
  frame, so that only the order of the rows of one key matters to them.
\<close>

definition pd_merge ::
  "('a \<Rightarrow> 'k) \<Rightarrow> ('b \<Rightarrow> 'k) \<Rightarrow> 'a list \<Rightarrow> 'b list \<Rightarrow> ('a \<times> 'b) list" where
  "pd_merge lkey rkey left right =
     concat (map (\<lambda>l. map (Pair l) (filter (\<lambda>r. rkey r = lkey l) right)) left)"

text \<open>
  \<open>pd.merge(left, right, on=key, how='left')\<close>: a left row without a match is kept,
  with every column of the right frame null (\<open>None\<close> for the right row).
\<close>

definition pd_merge_left ::
  "('a \<Rightarrow> 'k) \<Rightarrow> ('b \<Rightarrow> 'k) \<Rightarrow> 'a list \<Rightarrow> 'b list \<Rightarrow> ('a \<times> 'b option) list" where
  "pd_merge_left lkey rkey left right =
     concat (map (\<lambda>l. case filter (\<lambda>r. rkey r = lkey l) right of
                         [] \<Rightarrow> [(l, None)]
                       | m # ms \<Rightarrow> map (\<lambda>r. (l, Some r)) (m # ms)) left)"

text \<open>
  The null check of the first three reports:
  \<open>if any(df.isnull().sum() > 0): df.dropna(inplace=True)\<close>.
\<close>

definition check_nulls :: "('r \<Rightarrow> bool) \<Rightarrow> 'r list \<Rightarrow> 'r list" where
  "check_nulls isnull df = (if list_ex isnull df then filter (\<lambda>r. \<not> isnull r) df else df)"

text \<open>
  \<open>df.groupby(key)\<close>: one group for each key that is not null, the groups in
  ascending order of the key, the rows of a group in the order of the frame.
\<close>

definition groupby :: "('r \<Rightarrow> 'k::linorder option) \<Rightarrow> 'r list \<Rightarrow> ('k \<times> 'r list) list" where
  "groupby key df =
     map (\<lambda>k. (k, filter (\<lambda>r. key r = Some k) df)) (sort (remdups (List.map_filter key df)))"

text \<open>
  The value of a 64-bit signed integer after wrap-around, and the aggregation
  \<open>'sum'\<close> of an int64 column: pandas adds in int64 and an overflow wraps.
\<close>

definition int64 :: "int \<Rightarrow> int" where
  "int64 x = (x + 2 ^ 63) mod 2 ^ 64 - 2 ^ 63"

definition agg_sum :: "int list \<Rightarrow> int" where
  "agg_sum xs = int64 (sum_list xs)"

text \<open>The aggregations \<open>'max'\<close> and \<open>'first'\<close> skip null values.\<close>

definition agg_max :: "'a::linorder option list \<Rightarrow> 'a option" where
  "agg_max xs = (case List.map_filter id xs of [] \<Rightarrow> None | y # ys \<Rightarrow> Some (fold max ys y))"

definition agg_first :: "'a option list \<Rightarrow> 'a option" where
  "agg_first xs = (case List.map_filter id xs of [] \<Rightarrow> None | y # ys \<Rightarrow> Some y)"

text \<open>
  \<open>pd.Series.mode(x)\<close>: the values that occur most often among the values that are
  not null, in sorted order.
\<close>

definition mode :: "'a::linorder option list \<Rightarrow> 'a list" where
  "mode xs =
     (let vs = List.map_filter id xs
      in sort (remdups (filter (\<lambda>v. list_all (\<lambda>w. count_list vs w \<le> count_list vs v) vs) vs)))"

text \<open>\<open>s[0]\<close> on the series that \<open>mode\<close> returns: the first mode, an error on none.\<close>

definition getitem0 :: "'a list \<Rightarrow> error + 'a" where
  "getitem0 s = (case s of [] \<Rightarrow> Inl LookupError | x # xs \<Rightarrow> Inr x)"

definition rename :: "(string \<times> string) list \<Rightarrow> string list \<Rightarrow> string list" where
  "rename columns cs = map (\<lambda>c. case map_of columns c of None \<Rightarrow> c | Some c' \<Rightarrow> c') cs"

section \<open>Writing a frame\<close>

datatype cell = CNull | CNat nat | CInt int | CStr string | CDate datetime

definition cell_opt :: "('a \<Rightarrow> cell) \<Rightarrow> 'a option \<Rightarrow> cell" where
  "cell_opt f x = (case x of None \<Rightarrow> CNull | Some v \<Rightarrow> f v)"

record csv =
  header :: "string list"
  body :: "cell list list"

text \<open>
  The file system a report writes to: which paths can be written, and the tables
  written so far. A write that fails leaves the files as they were.
\<close>

record filesystem =
  writable :: "string \<Rightarrow> bool"
  files :: "string \<Rightarrow> csv option"

text \<open>
  \<open>__to_csv\<close>. A frame is given by the label of its index, the names of its columns,
  the value of a row in a column, and its rows with their index values.
  \<open>df.to_csv\<close> writes the index as the leftmost column. It raises when a requested
  column is not in the frame or when the file cannot be written; both are caught and
  give status 1.
\<close>

definition to_csv ::
  "string \<Rightarrow> string list \<Rightarrow> (string \<Rightarrow> 'r \<Rightarrow> cell) \<Rightarrow> (nat \<times> 'r) list \<Rightarrow>
   string \<Rightarrow> string list option \<Rightarrow> filesystem \<Rightarrow> int \<times> filesystem" where
  "to_csv index_label df_columns cell_of df filename columns fs =
     (let cols = (case columns of
                    None \<Rightarrow> df_columns
                  | Some cs \<Rightarrow> if cs \<noteq> [] then cs else df_columns)
      in if \<not> list_all (\<lambda>c. c \<in> set df_columns) cols then (1, fs)
         else if \<not> writable fs filename then (1, fs)
         else (0, fs\<lparr>files := (files fs)(filename \<mapsto>
                 \<lparr>header = index_label # cols,
                  body = map (\<lambda>(i, r). CNat i # map (\<lambda>c. cell_of c r) cols) df\<rparr>)\<rparr>))"

section \<open>The sales-by-brand report\<close>

text \<open>The frame after the three merges of \<open>sales_by_brand\<close>.\<close>

record sale_invoice_row =
  sale_id :: "nat option"
  invoice_id :: "nat option"
  customer_id :: "nat option"
  vehicle_id :: "nat option"
  sale_dt :: "datetime option"
  price :: int
  vehicle_model_id :: "nat option"
  vehicle_year :: "int option"
  brand_name :: "string option"
  model_name :: "string option"

definition sale_invoice_columns ::
  "((sale \<times> invoice) \<times> vehicle option) \<times> vehicle_model option \<Rightarrow> sale_invoice_row" where
  "sale_invoice_columns = (\<lambda>(((s, i), v), m).
     \<lparr>sale_invoice_row.sale_id = sale.sale_id s,
      sale_invoice_row.invoice_id = sale.invoice_id s,
      sale_invoice_row.customer_id = sale.customer_id s,
      sale_invoice_row.vehicle_id = sale.vehicle_id s,
      sale_invoice_row.sale_dt = sale.sale_dt s,
      sale_invoice_row.price = invoice.price i,
      sale_invoice_row.vehicle_model_id = Option.bind v vehicle.vehicle_model_id,
      sale_invoice_row.vehicle_year = Option.bind v vehicle.vehicle_year,
      sale_invoice_row.brand_name = Option.bind m vehicle_model.brand_name,
      sale_invoice_row.model_name = Option.bind m vehicle_model.model_name\<rparr>)"

definition sale_invoice_isnull :: "sale_invoice_row \<Rightarrow> bool" where
  "sale_invoice_isnull r \<longleftrightarrow>
     sale_invoice_row.sale_id r = None \<or> sale_invoice_row.invoice_id r = None \<or>
     sale_invoice_row.customer_id r = None \<or> sale_invoice_row.vehicle_id r = None \<or>
     sale_invoice_row.sale_dt r = None \<or>
     sale_invoice_row.vehicle_model_id r = None \<or> sale_invoice_row.vehicle_year r = None \<or>
     sale_invoice_row.brand_name r = None \<or> sale_invoice_row.model_name r = None"

definition sales_by_brand_merged ::
  "sale list \<Rightarrow> vehicle list \<Rightarrow> invoice list \<Rightarrow> vehicle_model list \<Rightarrow> sale_invoice_row list" where
  "sales_by_brand_merged sales vehicles invoices vehicle_models =
     map sale_invoice_columns
       (pd_merge_left (\<lambda>(si, v). Option.bind v vehicle.vehicle_model_id)
                      vehicle_model.vehicle_model_id
          (pd_merge_left (\<lambda>(s, i). sale.vehicle_id s) vehicle.vehicle_id
             (pd_merge sale.invoice_id invoice.invoice_id sales invoices)
             vehicles)
          vehicle_models)"

text \<open>The rows of the report, with the names the columns have after \<open>rename\<close>.\<close>

record brand_row =
  vehicle_brand :: string
  n_sales :: nat
  total_value :: int

definition brand_columns :: "string list" where
  "brand_columns =
     rename [(''brand_name'', ''vehicle_brand''), (''sale_id'', ''n_sales''),
             (''price'', ''total_value'')]
       [''brand_name'', ''sale_id'', ''price'']"

definition brand_cell :: "string \<Rightarrow> brand_row \<Rightarrow> cell" where
  "brand_cell c r =
     (if c = ''vehicle_brand'' then CStr (vehicle_brand r)
      else if c = ''n_sales'' then CNat (n_sales r)
      else if c = ''total_value'' then CInt (total_value r)
      else CNull)"

text \<open>
  The frame \<open>sales_by_brand\<close> hands to \<open>__to_csv\<close>: the null check, the groups by
  \<open>brand_name\<close> with \<open>size\<close> and \<open>sum\<close>, numbered from 0 (\<open>as_index=False\<close>), and
  sorted by \<open>n_sales\<close> and \<open>total_value\<close>, both descending.
\<close>

definition sales_by_brand_df ::
  "sale list \<Rightarrow> vehicle list \<Rightarrow> invoice list \<Rightarrow> vehicle_model list \<Rightarrow> (nat \<times> brand_row) list" where
  "sales_by_brand_df sales vehicles invoices vehicle_models =
     (let df = sales_by_brand_merged sales vehicles invoices vehicle_models;
          df = check_nulls sale_invoice_isnull df;
          df = map (\<lambda>(b, g). \<lparr>vehicle_brand = b,
                               n_sales = length g,
                               total_value = agg_sum (map sale_invoice_row.price g)\<rparr>)
                 (groupby sale_invoice_row.brand_name df)
      in sort_key (\<lambda>(i, r). (- int (n_sales r), - total_value r)) (enumerate 0 df))"

definition sales_by_brand ::
  "ReportGenerator \<Rightarrow> string \<Rightarrow> filesystem \<Rightarrow> error + int \<times> filesystem" where
  "sales_by_brand self filename fs =
     and_then (read_sql_query Sales self) (\<lambda>sales.
     and_then (read_sql_query Vehicles self) (\<lambda>vehicles.
     and_then (read_sql_query Invoices self) (\<lambda>invoices.
     and_then (read_sql_query Vehicle_models self) (\<lambda>vehicle_models.
       Inr (to_csv [] brand_columns brand_cell
              (sales_by_brand_df sales vehicles invoices vehicle_models) filename None fs)))))"

section \<open>The new-customers and old-customers reports\<close>

text \<open>The frame after the three merges of the customer reports.\<close>

record sale_customer_row =
  sale_id :: "nat option"
  invoice_id :: "nat option"
  customer_id :: "nat option"
  vehicle_id :: "nat option"
  sale_dt :: "datetime option"
  customer_name :: "string option"
  vehicle_model_id :: "nat option"
  vehicle_year :: "int option"
  brand_name :: "string option"
  model_name :: "string option"

definition sale_customer_columns ::
  "((sale \<times> customer) \<times> vehicle option) \<times> vehicle_model option \<Rightarrow> sale_customer_row" where
  "sale_customer_columns = (\<lambda>(((s, c), v), m).
     \<lparr>sale_customer_row.sale_id = sale.sale_id s,
      sale_customer_row.invoice_id = sale.invoice_id s,
      sale_customer_row.customer_id = sale.customer_id s,
      sale_customer_row.vehicle_id = sale.vehicle_id s,
      sale_customer_row.sale_dt = sale.sale_dt s,
      sale_customer_row.customer_name = customer.customer_name c,
      sale_customer_row.vehicle_model_id = Option.bind v vehicle.vehicle_model_id,
      sale_customer_row.vehicle_year = Option.bind v vehicle.vehicle_year,
      sale_customer_row.brand_name = Option.bind m vehicle_model.brand_name,
      sale_customer_row.model_name = Option.bind m vehicle_model.model_name\<rparr>)"

definition sale_customer_isnull :: "sale_customer_row \<Rightarrow> bool" where
  "sale_customer_isnull r \<longleftrightarrow>
     sale_customer_row.sale_id r = None \<or> sale_customer_row.invoice_id r = None \<or>
     sale_customer_row.customer_id r = None \<or> sale_customer_row.vehicle_id r = None \<or>
     sale_customer_row.sale_dt r = None \<or> sale_customer_row.customer_name r = None \<or>
     sale_customer_row.vehicle_model_id r = None \<or> sale_customer_row.vehicle_year r = None \<or>
     sale_customer_row.brand_name r = None \<or> sale_customer_row.model_name r = None"

definition customers_merged ::
  "sale list \<Rightarrow> vehicle list \<Rightarrow> vehicle_model list \<Rightarrow> customer list \<Rightarrow> sale_customer_row list" where
  "customers_merged sales vehicles vehicle_models customers =
     map sale_customer_columns
       (pd_merge_left (\<lambda>(sc, v). Option.bind v vehicle.vehicle_model_id)
                      vehicle_model.vehicle_model_id
          (pd_merge_left (\<lambda>(s, c). sale.vehicle_id s) vehicle.vehicle_id
             (pd_merge sale.customer_id customer.customer_id sales customers)
             vehicles)
          vehicle_models)"

text \<open>The rows of both reports, with the names the columns have after \<open>rename\<close>.\<close>

record customer_row =
  customer_id :: nat
  sale_dt :: "datetime option"
  customer_name :: "string option"
  vehicle_brand :: "string option"
  vehicle_model :: "string option"
  vehicle_year :: "int option"

definition customer_columns :: "string list" where
  "customer_columns =
     rename [(''brand_name'', ''vehicle_brand''), (''model_name'', ''vehicle_model'')]
       [''customer_id'', ''sale_dt'', ''customer_name'', ''brand_name'', ''model_name'',
        ''vehicle_year'']"

definition customer_cell :: "string \<Rightarrow> customer_row \<Rightarrow> cell" where
  "customer_cell c r =
     (if c = ''customer_id'' then CNat (customer_row.customer_id r)
      else if c = ''sale_dt'' then cell_opt CDate (customer_row.sale_dt r)
      else if c = ''customer_name'' then cell_opt CStr (customer_row.customer_name r)
      else if c = ''vehicle_brand'' then cell_opt CStr (customer_row.vehicle_brand r)
      else if c = ''vehicle_model'' then cell_opt CStr (customer_row.vehicle_model r)
      else if c = ''vehicle_year'' then cell_opt CInt (customer_row.vehicle_year r)
      else CNull)"

text \<open>
  The key of \<open>sort_values\<close> on a column that may hold nulls: nulls come last.
  \<open>sort_values\<close> on one column uses numpy's quicksort, which keeps rows of equal keys
  in their order on frames of at most 16 rows and may permute them on longer ones. The
  model sorts stably. The order of rows with equal keys is in none of the statements
  below: they are about the rows as a set or a multiset, about the order of the keys, or
  about frames of a few rows.
\<close>

definition na_last :: "'a option \<Rightarrow> nat \<times> 'a list" where
  "na_last x = (case x of None \<Rightarrow> (1, []) | Some v \<Rightarrow> (0, [v]))"

text \<open>
  The frame \<open>new_customers\<close> hands to \<open>__to_csv\<close>: the null check, the rows with
  \<open>sale_dt >= dt.datetime(2020, 1, 1)\<close>, the groups by \<open>customer_id\<close> with \<open>max\<close> of
  \<open>sale_dt\<close> and \<open>first\<close> of the other columns, numbered from 0, sorted by
  \<open>customer_name\<close>.
\<close>

definition new_customers_df ::
  "sale list \<Rightarrow> vehicle list \<Rightarrow> vehicle_model list \<Rightarrow> customer list \<Rightarrow>
   (nat \<times> customer_row) list" where
  "new_customers_df sales vehicles vehicle_models customers =
     (let df = customers_merged sales vehicles vehicle_models customers;
          df = check_nulls sale_customer_isnull df;
          df = filter (\<lambda>r. case sale_customer_row.sale_dt r of
                              None \<Rightarrow> False
                            | Some d \<Rightarrow> d \<ge> dt_datetime 2020 1 1) df;
          df = map (\<lambda>(k, g).
                 \<lparr>customer_row.customer_id = k,
                  customer_row.sale_dt = agg_max (map sale_customer_row.sale_dt g),
                  customer_row.customer_name = agg_first (map sale_customer_row.customer_name g),
                  customer_row.vehicle_brand = agg_first (map sale_customer_row.brand_name g),
                  customer_row.vehicle_model = agg_first (map sale_customer_row.model_name g),
                  customer_row.vehicle_year = agg_first (map sale_customer_row.vehicle_year g)\<rparr>)
                 (groupby sale_customer_row.customer_id df)
      in sort_key (\<lambda>(i, r). na_last (customer_row.customer_name r)) (enumerate 0 df))"

definition new_customers ::
  "ReportGenerator \<Rightarrow> string \<Rightarrow> filesystem \<Rightarrow> error + int \<times> filesystem" where
  "new_customers self filename fs =
     and_then (read_sql_query Sales self) (\<lambda>sales.
     and_then (read_sql_query Vehicles self) (\<lambda>vehicles.
     and_then (read_sql_query Vehicle_models self) (\<lambda>vehicle_models.
     and_then (read_sql_query Customers self) (\<lambda>customers.
       Inr (to_csv [] customer_columns customer_cell
              (new_customers_df sales vehicles vehicle_models customers) filename
              (Some [''customer_name'', ''vehicle_brand'', ''vehicle_model'', ''vehicle_year'',
                     ''sale_dt''])
              fs)))))"

text \<open>
  \<open>old_customers\<close> is the same pipeline with the filter
  \<open>sale_dt <= dt.datetime(2016, 1, 1)\<close>.
\<close>

definition old_customers_df ::
  "sale list \<Rightarrow> vehicle list \<Rightarrow> vehicle_model list \<Rightarrow> customer list \<Rightarrow>
   (nat \<times> customer_row) list" where
  "old_customers_df sales vehicles vehicle_models customers =
     (let df = customers_merged sales vehicles vehicle_models customers;
          df = check_nulls sale_customer_isnull df;
          df = filter (\<lambda>r. case sale_customer_row.sale_dt r of
                              None \<Rightarrow> False
                            | Some d \<Rightarrow> d \<le> dt_datetime 2016 1 1) df;
          df = map (\<lambda>(k, g).
                 \<lparr>customer_row.customer_id = k,
                  customer_row.sale_dt = agg_max (map sale_customer_row.sale_dt g),
                  customer_row.customer_name = agg_first (map sale_customer_row.customer_name g),
                  customer_row.vehicle_brand = agg_first (map sale_customer_row.brand_name g),
                  customer_row.vehicle_model = agg_first (map sale_customer_row.model_name g),
                  customer_row.vehicle_year = agg_first (map sale_customer_row.vehicle_year g)\<rparr>)
                 (groupby sale_customer_row.customer_id df)
      in sort_key (\<lambda>(i, r). na_last (customer_row.customer_name r)) (enumerate 0 df))"

definition old_customers ::
  "ReportGenerator \<Rightarrow> string \<Rightarrow> filesystem \<Rightarrow> error + int \<times> filesystem" where
  "old_customers self filename fs =
     and_then (read_sql_query Sales self) (\<lambda>sales.
     and_then (read_sql_query Vehicles self) (\<lambda>vehicles.
     and_then (read_sql_query Vehicle_models self) (\<lambda>vehicle_models.
     and_then (read_sql_query Customers self) (\<lambda>customers.
       Inr (to_csv [] customer_columns customer_cell
              (old_customers_df sales vehicles vehicle_models customers) filename
              (Some [''customer_name'', ''vehicle_brand'', ''vehicle_model'', ''vehicle_year'',
                     ''sale_dt''])
              fs)))))"

section \<open>The next-vehicle report\<close>

record next_vehicle_row =
  most_common_second_veh_brand :: string
  first_veh_brand :: "string option"

definition next_vehicle_columns :: "string list" where
  "next_vehicle_columns =
     rename [(''brand_name'', ''most_common_second_veh_brand'')] [''brand_name''] @
     rename [(''brand_name'', ''first_veh_brand'')] [''brand_name'']"

definition next_vehicle_cell :: "string \<Rightarrow> next_vehicle_row \<Rightarrow> cell" where
  "next_vehicle_cell c r =
     (if c = ''most_common_second_veh_brand'' then CStr (most_common_second_veh_brand r)
      else if c = ''first_veh_brand'' then cell_opt CStr (first_veh_brand r)
      else CNull)"

text \<open>
  \<open>groupby(...).agg\<close> with a function that may raise: the groups are aggregated in
  order, and the first error leaves the aggregation.
\<close>

fun agg_each :: "('a \<Rightarrow> error + 'b) \<Rightarrow> 'a list \<Rightarrow> error + 'b list" where
  "agg_each f [] = Inr []"
| "agg_each f (x # xs) =
     (case f x of
        Inl e \<Rightarrow> Inl e
      | Inr y \<Rightarrow> (case agg_each f xs of Inl e \<Rightarrow> Inl e | Inr ys \<Rightarrow> Inr (y # ys)))"

text \<open>
  The rows \<open>next_vehicle\<close> keeps: no null check; the customers with more than one row
  of the merged frame; sorted by \<open>sale_dt\<close> (stably, see \<open>na_last\<close>: on frames of more
  than 16 rows the sales of one customer with equal \<open>sale_dt\<close> may come in another
  order, and with them \<open>first_veh_brand\<close>).
\<close>

definition next_vehicle_retained ::
  "sale list \<Rightarrow> vehicle list \<Rightarrow> vehicle_model list \<Rightarrow> customer list \<Rightarrow> sale_customer_row list" where
  "next_vehicle_retained sales vehicles vehicle_models customers =
     (let df = customers_merged sales vehicles vehicle_models customers;
          customers_id = map (\<lambda>(k, g). (k, length g)) (groupby sale_customer_row.customer_id df);
          customers_id = filter (\<lambda>(k, n). n > 1) customers_id;
          df = filter (\<lambda>r. sale_customer_row.customer_id r \<in> Some ` set (map fst customers_id)) df
      in sort_key (\<lambda>r. na_last (sale_customer_row.sale_dt r)) df)"

text \<open>
  The frame \<open>next_vehicle\<close> hands to \<open>__to_csv\<close>, indexed by \<open>customer_id\<close>: the first
  mode of \<open>brand_name\<close> of each customer, merged with the first \<open>brand_name\<close> of each
  customer, sorted by \<open>first_veh_brand\<close>. Taking the first mode of a group without a
  brand raises.
\<close>

definition next_vehicle_df ::
  "sale list \<Rightarrow> vehicle list \<Rightarrow> vehicle_model list \<Rightarrow> customer list \<Rightarrow>
   error + (nat \<times> next_vehicle_row) list" where
  "next_vehicle_df sales vehicles vehicle_models customers =
     (let df = next_vehicle_retained sales vehicles vehicle_models customers
      in and_then
           (agg_each (\<lambda>(k, g). case getitem0 (mode (map sale_customer_row.brand_name g)) of
                                  Inl e \<Rightarrow> Inl e
                                | Inr b \<Rightarrow> Inr (k, b))
              (groupby sale_customer_row.customer_id df))
           (\<lambda>df'.
              let firsts = map (\<lambda>(k, g). (k, agg_first (map sale_customer_row.brand_name g)))
                             (groupby sale_customer_row.customer_id df);
                  df' = map (\<lambda>((k, b), f).
                          (k, \<lparr>most_common_second_veh_brand = b,
                               first_veh_brand = Option.bind f snd\<rparr>))
                          (pd_merge_left fst fst df' firsts)
              in Inr (sort_key (\<lambda>(k, r). na_last (first_veh_brand r)) df')))"

definition next_vehicle ::
  "ReportGenerator \<Rightarrow> string \<Rightarrow> filesystem \<Rightarrow> error + int \<times> filesystem" where
  "next_vehicle self filename fs =
     and_then (read_sql_query Sales self) (\<lambda>sales.
     and_then (read_sql_query Vehicles self) (\<lambda>vehicles.
     and_then (read_sql_query Vehicle_models self) (\<lambda>vehicle_models.
     and_then (read_sql_query Customers self) (\<lambda>customers.
     and_then (next_vehicle_df sales vehicles vehicle_models customers) (\<lambda>df'.
       Inr (to_csv ''customer_id'' next_vehicle_columns next_vehicle_cell df' filename None
              fs))))))"

section \<open>Statements about the sales-by-brand report\<close>


section \<open>Statements about the customer reports\<close>




section \<open>Statements about the next-vehicle report\<close>

text \<open>The aggregation of one group by the first mode of its brands, named for the proofs.\<close>

definition first_mode :: "nat \<times> sale_customer_row list \<Rightarrow> error + nat \<times> string" where
  "first_mode = (\<lambda>(k, g). case getitem0 (mode (map sale_customer_row.brand_name g)) of
                              Inl e \<Rightarrow> Inl e
                            | Inr b \<Rightarrow> Inr (k, b))"



section \<open>Statements about the return status\<close>

text \<open>
  The result of a report that reached \<open>__to_csv\<close>: status 0 and the file written when
  the path can be written, status 1 and the files unchanged when it cannot.
\<close>

definition write_status :: "error + int \<times> filesystem \<Rightarrow> string \<Rightarrow> filesystem \<Rightarrow> bool" where
  "write_status res filename fs \<longleftrightarrow>
     (if writable fs filename
      then \<exists>fs'. res = Inr (0, fs') \<and> files fs' filename \<noteq> None
      else res = Inr (1, fs))"

section \<open>An example database\<close>

text \<open>
  Alice bought a Honda in 2021 and a Toyota in 2022; Bob bought a Toyota on 2016-01-01
  and a Honda on 2020-01-01, the two bounds of the customer reports; Carol bought a
  vehicle that is not in the table Vehicles.
\<close>

definition mk_sale :: "nat \<Rightarrow> nat \<Rightarrow> nat \<Rightarrow> nat \<Rightarrow> datetime \<Rightarrow> sale" where
  "mk_sale s i c v d =
     \<lparr>sale.sale_id = Some s, sale.invoice_id = Some i, sale.customer_id = Some c,
      sale.vehicle_id = Some v, sale.sale_dt = Some d\<rparr>"

definition ex_sales :: "sale list" where
  "ex_sales =
     [mk_sale 1 1 1 1 (2021, 3, 1, 0),
      mk_sale 2 2 1 2 (2022, 5, 1, 0),
      mk_sale 3 3 2 2 (2016, 1, 1, 0),
      mk_sale 4 4 2 1 (2020, 1, 1, 0),
      mk_sale 5 5 3 9 (2021, 1, 1, 0)]"

definition ex_invoices :: "invoice list" where
  "ex_invoices =
     [\<lparr>invoice.invoice_id = Some 1, invoice.price = 100\<rparr>,
      \<lparr>invoice.invoice_id = Some 2, invoice.price = 200\<rparr>,
      \<lparr>invoice.invoice_id = Some 3, invoice.price = 300\<rparr>,
      \<lparr>invoice.invoice_id = Some 4, invoice.price = 50\<rparr>,
      \<lparr>invoice.invoice_id = Some 5, invoice.price = 70\<rparr>]"

definition ex_vehicles :: "vehicle list" where
  "ex_vehicles =
     [\<lparr>vehicle.vehicle_id = Some 1, vehicle.vehicle_model_id = Some 1,
       vehicle.vehicle_year = Some 2020\<rparr>,
      \<lparr>vehicle.vehicle_id = Some 2, vehicle.vehicle_model_id = Some 2,
       vehicle.vehicle_year = Some 2021\<rparr>]"

definition ex_vehicle_models :: "vehicle_model list" where
  "ex_vehicle_models =
     [\<lparr>vehicle_model.vehicle_model_id = Some 1, vehicle_model.brand_name = Some ''Honda'',
       vehicle_model.model_name = Some ''Civic''\<rparr>,
      \<lparr>vehicle_model.vehicle_model_id = Some 2, vehicle_model.brand_name = Some ''Toyota'',
       vehicle_model.model_name = Some ''Corolla''\<rparr>]"

definition ex_customers :: "customer list" where
  "ex_customers =
     [\<lparr>customer.customer_id = Some 1, customer.customer_name = Some ''Alice''\<rparr>,
      \<lparr>customer.customer_id = Some 2, customer.customer_name = Some ''Bob''\<rparr>,
      \<lparr>customer.customer_id = Some 3, customer.customer_name = Some ''Carol''\<rparr>]"

definition ex_db :: database where
  "ex_db = \<lparr>Sales = Some ex_sales, Vehicles = Some ex_vehicles, Invoices = Some ex_invoices,
            Vehicle_models = Some ex_vehicle_models, Customers = Some ex_customers\<rparr>"

definition ex_fs :: filesystem where
  "ex_fs = \<lparr>writable = (\<lambda>f. f = ''report.csv''), files = (\<lambda>f. None)\<rparr>"

definition ex_self :: ReportGenerator where
  "ex_self = \<lparr>dbname = ''vehicle_crm.sqlite'', con = Some ex_db\<rparr>"

text \<open>
  Two more tables of sales: in the first Carol has a second sale of a vehicle that is not
  in the table Vehicles; in the second Alice bought a Honda in 2014 and a Toyota in 2015.
\<close>

definition ex_sales_unmatched :: "sale list" where
  "ex_sales_unmatched = ex_sales @ [mk_sale 6 6 3 9 (2021, 6, 1, 0)]"

definition ex_sales_old :: "sale list" where
  "ex_sales_old = [mk_sale 7 7 1 1 (2014, 3, 1, 0), mk_sale 8 8 1 2 (2015, 5, 1, 0)]"





section \<open>Facts about the pandas operations\<close>


lemma set_map_filter:
  "set (List.map_filter f xs) = {y. \<exists>x \<in> set xs. f x = Some y}"
  by (induction xs) (auto split: option.splits)

lemma groupby_keys: "map fst (groupby key df) = sort (remdups (List.map_filter key df))"
  by (simp add: groupby_def comp_def)


lemma groupby_sorted: "sorted (map fst (groupby key df))"
  by (simp add: groupby_keys)

lemma groupby_key_set: "set (map fst (groupby key df)) = {k. \<exists>r \<in> set df. key r = Some k}"
  by (auto simp: groupby_keys set_map_filter)

lemma groupby_mem:
  "(k, g) \<in> set (groupby key df) \<longleftrightarrow>
     (\<exists>r \<in> set df. key r = Some k) \<and> g = filter (\<lambda>r. key r = Some k) df"
  by (auto simp: groupby_def set_map_filter)



lemma mset_sort_enumerate: "mset (map snd (sort_key f (enumerate n xs))) = mset xs"
proof -
  have "mset (map snd (sort_key f (enumerate n xs))) = mset (map snd (enumerate n xs))"
    by (simp only: mset_map mset_sort)
  then show ?thesis by simp
qed

lemma set_sort_enumerate: "set (map snd (sort_key f (enumerate n xs))) = set xs"
  using mset_sort_enumerate [of f n xs] by (metis set_mset_mset)






section \<open>The sales-by-brand report: order and groups\<close>


lemma ex_sales_by_brand_df:
  "sales_by_brand_df ex_sales ex_vehicles ex_invoices ex_vehicle_models =
     [(1, \<lparr>brand_row.vehicle_brand = ''Toyota'', n_sales = 2, total_value = 500\<rparr>),
      (0, \<lparr>brand_row.vehicle_brand = ''Honda'', n_sales = 2, total_value = 150\<rparr>)]"
  by code_simp

text \<open>
  Claim C5. The rows of the sales-by-brand report are sorted: of two adjacent rows the
  earlier has at least the \<open>n_sales\<close> of the later, and at equal \<open>n_sales\<close> at
  least its \<open>total_value\<close>.
\<close>

theorem sales_by_brand_sorted:
  assumes "Suc i < length (sales_by_brand_df S V I M)"
  shows "n_sales (snd (sales_by_brand_df S V I M ! i)) \<ge>
           n_sales (snd (sales_by_brand_df S V I M ! Suc i)) \<and>
         (n_sales (snd (sales_by_brand_df S V I M ! i)) =
            n_sales (snd (sales_by_brand_df S V I M ! Suc i)) \<longrightarrow>
          total_value (snd (sales_by_brand_df S V I M ! i)) \<ge>
            total_value (snd (sales_by_brand_df S V I M ! Suc i)))"
proof -
  let ?key = "\<lambda>(i, r). (- int (n_sales r), - total_value r)"
  let ?out = "sales_by_brand_df S V I M"
  have "sorted (map ?key ?out)"
    unfolding sales_by_brand_df_def Let_def by (rule sorted_sort_key)
  then have "map ?key ?out ! i \<le> map ?key ?out ! Suc i"
    using assms by (simp add: sorted_iff_nth_mono del: nth_map)
  then have "?key (?out ! i) \<le> ?key (?out ! Suc i)"
    using assms by simp
  then show ?thesis
    by (auto simp: case_prod_beta less_eq_prod_def)
qed

theorem sales_by_brand_sorted_witness:
  "Suc 0 < length (sales_by_brand_df ex_sales ex_vehicles ex_invoices ex_vehicle_models) \<and>
   n_sales (snd (sales_by_brand_df ex_sales ex_vehicles ex_invoices ex_vehicle_models ! 0)) = 2 \<and>
   n_sales (snd (sales_by_brand_df ex_sales ex_vehicles ex_invoices ex_vehicle_models ! Suc 0)) = 2 \<and>
   total_value (snd (sales_by_brand_df ex_sales ex_vehicles ex_invoices ex_vehicle_models ! 0)) \<ge>
     total_value (snd (sales_by_brand_df ex_sales ex_vehicles ex_invoices ex_vehicle_models ! Suc 0))"
proof -
  have h: "Suc 0 < length (sales_by_brand_df ex_sales ex_vehicles ex_invoices ex_vehicle_models)"
    by (simp add: ex_sales_by_brand_df)
  have n0: "n_sales (snd (sales_by_brand_df ex_sales ex_vehicles ex_invoices ex_vehicle_models ! 0)) = 2"
    and n1: "n_sales (snd (sales_by_brand_df ex_sales ex_vehicles ex_invoices ex_vehicle_models ! Suc 0)) = 2"
    by (simp_all add: ex_sales_by_brand_df)
  show ?thesis
    using h n0 n1 sales_by_brand_sorted [OF h] by simp
qed

















section \<open>The customer reports: one row for each customer, with the latest date\<close>










section \<open>The next-vehicle report\<close>


lemma agg_each_Inl:
  "x \<in> set xs \<Longrightarrow> f x = Inl LookupError \<Longrightarrow>
   \<forall>x \<in> set xs. \<forall>e. f x = Inl e \<longrightarrow> e = LookupError \<Longrightarrow>
   agg_each f xs = Inl LookupError"
  by (induction xs) (auto split: sum.splits)

lemma agg_each_total:
  "\<forall>x \<in> set xs. \<exists>y. f x = Inr y \<Longrightarrow> \<exists>ys. agg_each f xs = Inr ys"
  by (induction xs) (auto split: sum.splits)

lemma map_filter_id_empty:
  "List.map_filter id (map f g) = [] \<longleftrightarrow> (\<forall>r \<in> set g. f r = None)"
  by (induction g) (auto split: option.splits)

lemma most_frequent_exists:
  assumes "vs \<noteq> []"
  shows "\<exists>v \<in> set vs. \<forall>w \<in> set vs. count_list vs w \<le> count_list vs v"
proof -
  let ?C = "count_list vs ` set vs"
  have fin: "finite ?C" and ne: "?C \<noteq> {}" using assms by simp_all
  from Max_in [OF fin ne] obtain v where v: "v \<in> set vs" "count_list vs v = Max ?C" by auto
  have "\<forall>w \<in> set vs. count_list vs w \<le> count_list vs v"
    using v(2) fin by (simp add: Max_ge)
  with v(1) show ?thesis by blast
qed

lemma set_mode:
  "set (mode xs) =
     {v \<in> set (List.map_filter id xs).
        \<forall>w \<in> set (List.map_filter id xs).
          count_list (List.map_filter id xs) w \<le> count_list (List.map_filter id xs) v}"
  by (auto simp: mode_def Let_def list_all_iff)


lemma mode_empty: "mode xs = [] \<longleftrightarrow> List.map_filter id xs = []"
proof
  assume "mode xs = []"
  then have "set (mode xs) = {}" by simp
  then show "List.map_filter id xs = []"
    using most_frequent_exists [of "List.map_filter id xs"] unfolding set_mode by blast
next
  assume "List.map_filter id xs = []"
  then show "mode xs = []" by (simp add: mode_def)
qed

lemma getitem0_mode_Inl: "getitem0 (mode xs) = Inl e \<Longrightarrow> e = LookupError"
  by (auto simp: getitem0_def split: list.splits)


lemma retained_ids:
  "set (map fst (filter (\<lambda>(k, n). n > 1)
          (map (\<lambda>(k, g). (k, length g)) (groupby key df)))) =
   {k. 1 < length (filter (\<lambda>r. key r = Some k) df)}"
proof -
  have "k \<in> set (map fst (filter (\<lambda>(k, n). n > 1)
          (map (\<lambda>(k, g). (k, length g)) (groupby key df)))) \<longleftrightarrow>
        1 < length (filter (\<lambda>r. key r = Some k) df)" for k
  proof
    assume "k \<in> set (map fst (filter (\<lambda>(k, n). n > 1)
          (map (\<lambda>(k, g). (k, length g)) (groupby key df))))"
    then obtain g where "(k, g) \<in> set (groupby key df)" "1 < length g" by auto
    then show "1 < length (filter (\<lambda>r. key r = Some k) df)" by (simp add: groupby_mem)
  next
    assume len: "1 < length (filter (\<lambda>r. key r = Some k) df)"
    then have "filter (\<lambda>r. key r = Some k) df \<noteq> []" by auto
    then have "\<exists>r \<in> set df. key r = Some k" by (simp add: filter_empty_conv)
    then have "(k, filter (\<lambda>r. key r = Some k) df) \<in> set (groupby key df)"
      by (simp add: groupby_mem)
    with len show "k \<in> set (map fst (filter (\<lambda>(k, n). n > 1)
          (map (\<lambda>(k, g). (k, length g)) (groupby key df))))"
      by force
  qed
  then show ?thesis by blast
qed

lemma set_next_vehicle_retained:
  "set (next_vehicle_retained S V M C) =
     {r \<in> set (customers_merged S V M C).
        \<exists>k. sale_customer_row.customer_id r = Some k \<and>
            1 < length (filter (\<lambda>r'. sale_customer_row.customer_id r' = Some k)
                          (customers_merged S V M C))}"
  unfolding next_vehicle_retained_def Let_def set_sort set_filter retained_ids
  by auto

lemma key_count_ex:
  "1 < length (filter (\<lambda>r. key r = Some k) df) \<Longrightarrow> \<exists>r \<in> set df. key r = Some k"
proof -
  assume "1 < length (filter (\<lambda>r. key r = Some k) df)"
  then have "filter (\<lambda>r. key r = Some k) df \<noteq> []" by auto
  then show ?thesis by (simp add: filter_empty_conv)
qed

lemma retained_group_keys:
  "set (map fst (groupby sale_customer_row.customer_id (next_vehicle_retained S V M C))) =
     {k. 1 < length (filter (\<lambda>r. sale_customer_row.customer_id r = Some k)
                       (customers_merged S V M C))}"
  (is "?L = ?R")
proof (rule set_eqI)
  fix k
  let ?n = "\<lambda>k. length (filter (\<lambda>r. sale_customer_row.customer_id r = Some k)
                       (customers_merged S V M C))"
  have "k \<in> ?L \<longleftrightarrow>
        (\<exists>r \<in> set (next_vehicle_retained S V M C). sale_customer_row.customer_id r = Some k)"
    unfolding groupby_key_set by simp
  also have "\<dots> \<longleftrightarrow> (\<exists>r \<in> set (customers_merged S V M C).
                        sale_customer_row.customer_id r = Some k \<and> 1 < ?n k)"
    unfolding set_next_vehicle_retained by auto
  also have "\<dots> \<longleftrightarrow> 1 < ?n k"
    using key_count_ex [of sale_customer_row.customer_id k "customers_merged S V M C"] by blast
  finally show "k \<in> ?L \<longleftrightarrow> k \<in> ?R" by simp
qed

lemma retained_group:
  "filter (\<lambda>r. sale_customer_row.customer_id r = Some k) (next_vehicle_retained S V M C) = g \<Longrightarrow>
   r \<in> set g \<Longrightarrow>
   r \<in> set (customers_merged S V M C) \<and> sale_customer_row.customer_id r = Some k"
  using set_next_vehicle_retained [of S V M C] by auto

lemma next_vehicle_df_first_mode:
  "next_vehicle_df S V M C =
     and_then
       (agg_each first_mode
          (groupby sale_customer_row.customer_id (next_vehicle_retained S V M C)))
       (\<lambda>df'. Inr (sort_key (\<lambda>(k, r). na_last (first_veh_brand r))
          (map (\<lambda>((k, b), f).
                  (k, \<lparr>most_common_second_veh_brand = b, first_veh_brand = Option.bind f snd\<rparr>))
             (pd_merge_left fst fst df'
                (map (\<lambda>(k, g). (k, agg_first (map sale_customer_row.brand_name g)))
                   (groupby sale_customer_row.customer_id (next_vehicle_retained S V M C)))))))"
  unfolding next_vehicle_df_def Let_def first_mode_def ..

lemma first_mode_Inl: "first_mode x = Inl e \<Longrightarrow> e = LookupError"
  by (cases x) (auto simp: first_mode_def split: sum.splits dest: getitem0_mode_Inl)


lemma first_mode_no_brand:
  "\<forall>r \<in> set g. sale_customer_row.brand_name r = None \<Longrightarrow> first_mode (k, g) = Inl LookupError"
proof -
  assume "\<forall>r \<in> set g. sale_customer_row.brand_name r = None"
  then have "List.map_filter id (map sale_customer_row.brand_name g) = []"
    by (simp add: map_filter_id_empty)
  then have "mode (map sale_customer_row.brand_name g) = []" by (simp add: mode_empty)
  then show ?thesis by (simp add: first_mode_def getitem0_def)
qed

lemma next_vehicle_df_raises:
  assumes many: "1 < length (filter (\<lambda>r. sale_customer_row.customer_id r = Some c)
                               (customers_merged S V M C))"
    and no_brand: "\<forall>r \<in> set (customers_merged S V M C).
                     sale_customer_row.customer_id r = Some c \<longrightarrow>
                     sale_customer_row.brand_name r = None"
  shows "next_vehicle_df S V M C = Inl LookupError"
proof -
  let ?df = "next_vehicle_retained S V M C"
  let ?groups = "groupby sale_customer_row.customer_id ?df"
  let ?g = "filter (\<lambda>r. sale_customer_row.customer_id r = Some c) ?df"
  have "c \<in> set (map fst ?groups)"
    using many by (simp only: retained_group_keys mem_Collect_eq)
  then have mem: "(c, ?g) \<in> set ?groups"
    by (auto simp: groupby_mem)
  have "\<forall>r \<in> set ?g. sale_customer_row.brand_name r = None"
    using no_brand retained_group [OF refl, of _ c S V M C] by blast
  then have "first_mode (c, ?g) = Inl LookupError" by (rule first_mode_no_brand)
  with mem have "agg_each first_mode ?groups = Inl LookupError"
    by (rule agg_each_Inl) (blast dest: first_mode_Inl)
  then show ?thesis
    by (simp add: next_vehicle_df_first_mode and_then_def)
qed

text \<open>
  Claim C10. The next-vehicle report takes the first mode of the brands of a customer
  without a guard: when a customer with two or more rows of the merged frame has no
  brand in any of them, the operation raises instead of returning a status.
\<close>

theorem next_vehicle_raises_without_brand:
  assumes "con self = Some db"
    and "Sales db = Some S" and "Vehicles db = Some V"
    and "Vehicle_models db = Some M" and "Customers db = Some C"
    and "1 < length (filter (\<lambda>r. sale_customer_row.customer_id r = Some c)
                       (customers_merged S V M C))"
    and "\<forall>r \<in> set (customers_merged S V M C).
           sale_customer_row.customer_id r = Some c \<longrightarrow> sale_customer_row.brand_name r = None"
  shows "next_vehicle self filename fs = Inl LookupError"
proof -
  have "next_vehicle_df S V M C = Inl LookupError"
    using assms(6,7) by (rule next_vehicle_df_raises)
  then show ?thesis
    using assms(1-5) by (simp add: next_vehicle_def read_sql_query_def and_then_def)
qed

theorem next_vehicle_raises_without_brand_witness:
  "1 < length (filter (\<lambda>r. sale_customer_row.customer_id r = Some 1)
                 (customers_merged ex_sales [] ex_vehicle_models ex_customers)) \<and>
   next_vehicle \<lparr>dbname = ''vehicle_crm.sqlite'', con = Some (ex_db\<lparr>Vehicles := Some []\<rparr>)\<rparr>
     ''report.csv'' ex_fs = Inl LookupError"
proof -
  have many: "1 < length (filter (\<lambda>r. sale_customer_row.customer_id r = Some 1)
                 (customers_merged ex_sales [] ex_vehicle_models ex_customers))"
    by code_simp
  have no_brand: "\<forall>r \<in> set (customers_merged ex_sales [] ex_vehicle_models ex_customers).
           sale_customer_row.customer_id r = Some 1 \<longrightarrow> sale_customer_row.brand_name r = None"
    by code_simp
  have connected: "con \<lparr>dbname = ''vehicle_crm.sqlite'',
                           con = Some (ex_db\<lparr>Vehicles := Some []\<rparr>)\<rparr> =
                     Some (ex_db\<lparr>Vehicles := Some []\<rparr>)"
    by simp
  have tables:
    "Sales (ex_db\<lparr>Vehicles := Some []\<rparr>) = Some ex_sales"
    "Vehicles (ex_db\<lparr>Vehicles := Some []\<rparr>) = Some []"
    "Vehicle_models (ex_db\<lparr>Vehicles := Some []\<rparr>) = Some ex_vehicle_models"
    "Customers (ex_db\<lparr>Vehicles := Some []\<rparr>) = Some ex_customers"
    by (simp_all add: ex_db_def)
  have "next_vehicle \<lparr>dbname = ''vehicle_crm.sqlite'', con = Some (ex_db\<lparr>Vehicles := Some []\<rparr>)\<rparr>
     ''report.csv'' ex_fs = Inl LookupError"
    by (rule next_vehicle_raises_without_brand [OF connected tables many no_brand])
  with many show ?thesis by simp
qed











lemma ex_next_vehicle_df:
  "next_vehicle_df ex_sales ex_vehicles ex_vehicle_models ex_customers =
     Inr [(1, \<lparr>most_common_second_veh_brand = ''Honda'', first_veh_brand = Some ''Honda''\<rparr>),
          (2, \<lparr>most_common_second_veh_brand = ''Honda'', first_veh_brand = Some ''Toyota''\<rparr>)]"
  by code_simp





section \<open>The next-vehicle report: customers and columns\<close>

lemma next_vehicle_columns_order:
  "next_vehicle_columns = [''most_common_second_veh_brand'', ''first_veh_brand'']"
  by (simp add: next_vehicle_columns_def rename_def)

lemma next_vehicle_written_header:
  assumes "next_vehicle self filename fs = Inr (0, fs')"
  shows "map_option header (files fs' filename) =
           Some [''customer_id'', ''most_common_second_veh_brand'', ''first_veh_brand'']"
  using assms
  by (auto simp: next_vehicle_def and_then_def to_csv_def next_vehicle_columns_order Let_def
           split: sum.splits if_splits)

lemma ex_unmatched_count:
  "length (filter (\<lambda>r. sale_customer_row.customer_id r = Some 3)
             (customers_merged ex_sales_unmatched ex_vehicles ex_vehicle_models ex_customers)) = 2"
  by code_simp

lemma ex_unmatched_df:
  "next_vehicle_df ex_sales_unmatched ex_vehicles ex_vehicle_models ex_customers =
     Inl LookupError"
  by code_simp

text \<open>
  Claim C6. A customer with two or more sale records is to appear exactly once in the
  next-vehicle report. Carol has two sale records, both of a vehicle that is not in the
  table Vehicles: the operation raises, and no report with Carol in it is written.
\<close>

theorem next_vehicle_customer_without_brand:
  "length (filter (\<lambda>r. sale_customer_row.customer_id r = Some 3)
             (customers_merged ex_sales_unmatched ex_vehicles ex_vehicle_models ex_customers)) = 2 \<and>
   next_vehicle
     \<lparr>dbname = ''vehicle_crm.sqlite'', con = Some (ex_db\<lparr>Sales := Some ex_sales_unmatched\<rparr>)\<rparr>
     ''report.csv'' ex_fs = Inl LookupError"
  by (simp add: ex_unmatched_count next_vehicle_def read_sql_query_def and_then_def ex_db_def
        ex_unmatched_df)

text \<open>
  Claim C8. The columns of the next-vehicle report are to be \<open>first_veh_brand\<close>, then
  \<open>most_common_second_veh_brand\<close>. The file that is written has, after the index
  \<open>customer_id\<close>, the column \<open>most_common_second_veh_brand\<close> first.
\<close>

theorem next_vehicle_header:
  "map_sum id (\<lambda>(status, fs). (status, map_option header (files fs ''report.csv'')))
     (next_vehicle \<lparr>dbname = ''vehicle_crm.sqlite'', con = Some ex_db\<rparr> ''report.csv'' ex_fs) =
   Inr (0, Some [''customer_id'', ''most_common_second_veh_brand'', ''first_veh_brand''])"
  by (simp add: next_vehicle_def read_sql_query_def and_then_def ex_db_def ex_next_vehicle_df
        to_csv_def next_vehicle_columns_order ex_fs_def)

section \<open>The customer reports: the columns of the latest purchase\<close>

text \<open>
  Claim C1. The brand, model and year of a row of the customer reports are to be those of
  the customer's qualifying sale with the greatest \<open>sale_dt\<close>. Alice's qualifying sales
  are a Honda Civic and, later, a Toyota Corolla: her row has the \<open>sale_dt\<close> of the
  Toyota and the brand, model and year of the Honda, the first row of her group, in the
  new-customers report and, with the sales of 2014 and 2015, in the old-customers report.
\<close>

theorem customers_first_row_brand:
  "map (\<lambda>r. (sale_customer_row.customer_id r, sale_customer_row.sale_dt r,
              sale_customer_row.brand_name r))
     (customers_merged ex_sales ex_vehicles ex_vehicle_models ex_customers) =
     [(Some 1, Some (2021, 3, 1, 0), Some ''Honda''),
      (Some 1, Some (2022, 5, 1, 0), Some ''Toyota''),
      (Some 2, Some (2016, 1, 1, 0), Some ''Toyota''),
      (Some 2, Some (2020, 1, 1, 0), Some ''Honda''),
      (Some 3, Some (2021, 1, 1, 0), None)] \<and>
   map snd (new_customers_df ex_sales ex_vehicles ex_vehicle_models ex_customers) =
     [\<lparr>customer_row.customer_id = 1, sale_dt = Some (2022, 5, 1, 0),
       customer_name = Some ''Alice'', vehicle_brand = Some ''Honda'',
       vehicle_model = Some ''Civic'', vehicle_year = Some 2020\<rparr>,
      \<lparr>customer_row.customer_id = 2, sale_dt = Some (2020, 1, 1, 0),
       customer_name = Some ''Bob'', vehicle_brand = Some ''Honda'',
       vehicle_model = Some ''Civic'', vehicle_year = Some 2020\<rparr>] \<and>
   map (\<lambda>r. (sale_customer_row.customer_id r, sale_customer_row.sale_dt r,
              sale_customer_row.brand_name r))
     (customers_merged ex_sales_old ex_vehicles ex_vehicle_models ex_customers) =
     [(Some 1, Some (2014, 3, 1, 0), Some ''Honda''),
      (Some 1, Some (2015, 5, 1, 0), Some ''Toyota'')] \<and>
   map snd (old_customers_df ex_sales_old ex_vehicles ex_vehicle_models ex_customers) =
     [\<lparr>customer_row.customer_id = 1, sale_dt = Some (2015, 5, 1, 0),
       customer_name = Some ''Alice'', vehicle_brand = Some ''Honda'',
       vehicle_model = Some ''Civic'', vehicle_year = Some 2020\<rparr>]"
  by code_simp

section \<open>The return status of the reports\<close>

lemma to_csv_all_columns:
  "write_status (Inr (to_csv index_label df_columns cell_of df filename None fs)) filename fs"
  by (simp add: write_status_def to_csv_def list_all_iff)

lemma to_csv_customer_columns:
  "write_status
     (Inr (to_csv [] customer_columns customer_cell df filename
        (Some [''customer_name'', ''vehicle_brand'', ''vehicle_model'', ''vehicle_year'',
               ''sale_dt'']) fs)) filename fs"
  by (simp add: write_status_def to_csv_def customer_columns_def rename_def)

lemma read_sql_query_cases:
  "read_sql_query table self =
     (case con self of None \<Rightarrow> Inl AttributeError
      | Some db \<Rightarrow> (case table db of None \<Rightarrow> Inl DatabaseError | Some rows \<Rightarrow> Inr rows))"
  by (simp add: read_sql_query_def)

lemma no_connection:
  assumes "con self = None"
  shows "sales_by_brand self filename fs = Inl AttributeError"
    and "new_customers self filename fs = Inl AttributeError"
    and "old_customers self filename fs = Inl AttributeError"
    and "next_vehicle self filename fs = Inl AttributeError"
  using assms
  by (simp_all add: sales_by_brand_def new_customers_def old_customers_def next_vehicle_def
        read_sql_query_def and_then_def)

lemma sales_by_brand_contract:
  assumes "con self = Some db"
  shows "if Sales db = None \<or> Vehicles db = None \<or> Invoices db = None \<or> Vehicle_models db = None
         then sales_by_brand self filename fs = Inl DatabaseError
         else write_status (sales_by_brand self filename fs) filename fs"
  using assms to_csv_all_columns [of "[]" brand_columns brand_cell _ filename fs]
  by (auto simp: sales_by_brand_def read_sql_query_def and_then_def split: option.splits)

lemma new_customers_contract:
  assumes "con self = Some db"
  shows "if Sales db = None \<or> Vehicles db = None \<or> Vehicle_models db = None \<or> Customers db = None
         then new_customers self filename fs = Inl DatabaseError
         else write_status (new_customers self filename fs) filename fs"
  using assms to_csv_customer_columns [of _ filename fs]
  by (auto simp: new_customers_def read_sql_query_def and_then_def split: option.splits)

lemma old_customers_contract:
  assumes "con self = Some db"
  shows "if Sales db = None \<or> Vehicles db = None \<or> Vehicle_models db = None \<or> Customers db = None
         then old_customers self filename fs = Inl DatabaseError
         else write_status (old_customers self filename fs) filename fs"
  using assms to_csv_customer_columns [of _ filename fs]
  by (auto simp: old_customers_def read_sql_query_def and_then_def split: option.splits)

lemma next_vehicle_df_error: "next_vehicle_df S V M C = Inl e \<Longrightarrow> e = LookupError"
proof -
  assume "next_vehicle_df S V M C = Inl e"
  then have "agg_each first_mode
      (groupby sale_customer_row.customer_id (next_vehicle_retained S V M C)) = Inl e"
    by (auto simp: next_vehicle_df_first_mode and_then_def split: sum.splits)
  moreover have "agg_each f xs = Inl e \<Longrightarrow> \<exists>x \<in> set xs. f x = Inl e" for f :: "'a \<Rightarrow> error + 'b" and xs
    by (induction xs) (auto split: sum.splits)
  ultimately show ?thesis by (blast dest: first_mode_Inl)
qed

lemma next_vehicle_contract:
  assumes "con self = Some db"
  shows "if Sales db = None \<or> Vehicles db = None \<or> Vehicle_models db = None \<or> Customers db = None
         then next_vehicle self filename fs = Inl DatabaseError
         else next_vehicle self filename fs = Inl LookupError \<or>
              write_status (next_vehicle self filename fs) filename fs"
  using assms to_csv_all_columns [of "''customer_id''" next_vehicle_columns next_vehicle_cell _ filename fs]
  by (auto simp: next_vehicle_def read_sql_query_def and_then_def
           split: option.splits sum.splits dest: next_vehicle_df_error)

text \<open>
  Claim C7. Each of the four reports returns 0 when the file is written and 1 when it
  cannot be written; without a connection and with a missing table the error leaves the
  operation, as does the error of the next-vehicle report on a customer without a brand.
\<close>

theorem report_return_contract:
  "(con self = None \<longrightarrow>
      sales_by_brand self filename fs = Inl AttributeError \<and>
      new_customers self filename fs = Inl AttributeError \<and>
      old_customers self filename fs = Inl AttributeError \<and>
      next_vehicle self filename fs = Inl AttributeError) \<and>
   (\<forall>db. con self = Some db \<longrightarrow>
      (if Sales db = None \<or> Vehicles db = None \<or> Invoices db = None \<or> Vehicle_models db = None
       then sales_by_brand self filename fs = Inl DatabaseError
       else write_status (sales_by_brand self filename fs) filename fs) \<and>
      (if Sales db = None \<or> Vehicles db = None \<or> Vehicle_models db = None \<or> Customers db = None
       then new_customers self filename fs = Inl DatabaseError
       else write_status (new_customers self filename fs) filename fs) \<and>
      (if Sales db = None \<or> Vehicles db = None \<or> Vehicle_models db = None \<or> Customers db = None
       then old_customers self filename fs = Inl DatabaseError
       else write_status (old_customers self filename fs) filename fs) \<and>
      (if Sales db = None \<or> Vehicles db = None \<or> Vehicle_models db = None \<or> Customers db = None
       then next_vehicle self filename fs = Inl DatabaseError
       else next_vehicle self filename fs = Inl LookupError \<or>
            write_status (next_vehicle self filename fs) filename fs))"
  by (intro conjI allI impI no_connection sales_by_brand_contract new_customers_contract
        old_customers_contract next_vehicle_contract)

theorem report_return_contract_witness:
  "(\<exists>fs'. sales_by_brand ex_self ''report.csv'' ex_fs = Inr (0, fs') \<and>
          files fs' ''report.csv'' \<noteq> None) \<and>
   new_customers ex_self ''elsewhere.csv'' ex_fs = Inr (1, ex_fs) \<and>
   old_customers (ex_self\<lparr>con := Some (ex_db\<lparr>Customers := None\<rparr>)\<rparr>) ''report.csv'' ex_fs =
     Inl DatabaseError \<and>
   next_vehicle (ex_self\<lparr>con := None\<rparr>) ''report.csv'' ex_fs = Inl AttributeError"
proof -
  have tables: "Sales ex_db \<noteq> None" "Vehicles ex_db \<noteq> None" "Invoices ex_db \<noteq> None"
    "Vehicle_models ex_db \<noteq> None" "Customers ex_db \<noteq> None"
    by (simp_all add: ex_db_def)
  have w: "writable ex_fs ''report.csv''" "\<not> writable ex_fs ''elsewhere.csv''"
    by (simp_all add: ex_fs_def)
  have "write_status (sales_by_brand ex_self ''report.csv'' ex_fs) ''report.csv'' ex_fs"
    using report_return_contract [of ex_self "''report.csv''" ex_fs] tables
    by (simp add: ex_self_def)
  then have 1: "\<exists>fs'. sales_by_brand ex_self ''report.csv'' ex_fs = Inr (0, fs') \<and>
          files fs' ''report.csv'' \<noteq> None"
    using w by (simp add: write_status_def)
  have "write_status (new_customers ex_self ''elsewhere.csv'' ex_fs) ''elsewhere.csv'' ex_fs"
    using report_return_contract [of ex_self "''elsewhere.csv''" ex_fs] tables
    by (simp add: ex_self_def)
  then have 2: "new_customers ex_self ''elsewhere.csv'' ex_fs = Inr (1, ex_fs)"
    using w by (simp add: write_status_def)
  have 3: "old_customers (ex_self\<lparr>con := Some (ex_db\<lparr>Customers := None\<rparr>)\<rparr>) ''report.csv'' ex_fs =
     Inl DatabaseError"
    using report_return_contract
      [of "ex_self\<lparr>con := Some (ex_db\<lparr>Customers := None\<rparr>)\<rparr>" "''report.csv''" ex_fs]
    by simp
  have 4: "next_vehicle (ex_self\<lparr>con := None\<rparr>) ''report.csv'' ex_fs = Inl AttributeError"
    using report_return_contract [of "ex_self\<lparr>con := None\<rparr>" "''report.csv''" ex_fs]
    by simp
  from 1 2 3 4 show ?thesis by (intro conjI)
qed

end
